theory Spec2Isabelle
  imports Complex_Main "HOL-Library.Sublist"
begin

section \<open>Data model\<close>

text \<open>
  The hook (\<^verbatim>\<open>pre_commit_hook_ensure_sops/__main__.py\<close>) works on the values that
  \<^verbatim>\<open>json.load\<close> and the safe YAML loader return: strings, numbers, booleans,
  \<^verbatim>\<open>None\<close>, lists and dicts. A dict is an association list in the order of the
  document, its keys strings (what JSON guarantees and section 3 of the specification
  fixes); a Python dict never holds a key twice, which theorems that need it assume as
  \<open>distinct (map fst kvs)\<close>. A \<^typ>\<open>char\<close> stands for one character of a Python
  \<^verbatim>\<open>str\<close>. YAML-only values (timestamps, binary, sets, keys that are not strings)
  are not represented: every statement below about a mapping is about a mapping whose
  keys are strings. (For a key that is not a string and fails the leaf rule,
  \<^verbatim>\<open>','.join(invalid_keys)\<close> raises \<^verbatim>\<open>TypeError\<close>; such a mapping is outside
  the model.)
\<close>

datatype pyval =
    VStr string
  | VInt int
  | VFloat real
  | VBool bool
  | VNull
  | VList "pyval list"
  | VDict "(string \<times> pyval) list"

text \<open>
  The exceptions that occur. All of them are subclasses of Python's \<^verbatim>\<open>Exception\<close>,
  so the handler \<^verbatim>\<open>except Exception\<close> catches every value of this type;
  \<^verbatim>\<open>except ParserError\<close> (the class of \<^verbatim>\<open>ruamel.yaml.parser\<close>) catches
  \<open>ParserError\<close> only: \<^verbatim>\<open>json.JSONDecodeError\<close> is a \<^verbatim>\<open>ValueError\<close>, and the
  other YAML errors (scanner, composer, constructor, reader) are its siblings, not its
  subclasses.
\<close>

datatype exn =
    ParserError
  | ScannerError
  | JSONDecodeError
  | UnicodeDecodeError
  | OSError
  | TypeError
  | KeyError
  | IndexError
  | AttributeError
  | OtherException string

type_synonym verdict = "bool \<times> string"

section \<open>The leaf rule\<close>

text \<open>
  \<^verbatim>\<open>validate_enc\<close> returns \<^verbatim>\<open>True\<close>, \<^verbatim>\<open>False\<close> or, for a string that is neither
  empty nor starts with \<^verbatim>\<open>ENC[\<close>, falls off the end of the function and returns
  \<^verbatim>\<open>None\<close>. The result is a \<^typ>\<open>bool option\<close>, \<open>None\<close> for Python's
  \<^verbatim>\<open>None\<close>; \<open>truthy\<close> is Python's truth value of it, which is what \<^verbatim>\<open>all\<close> and
  \<^verbatim>\<open>not\<close> read.
\<close>

fun truthy :: "bool option \<Rightarrow> bool" where
  "truthy (Some b) = b"
| "truthy None = False"

definition startswith :: "string \<Rightarrow> string \<Rightarrow> bool" where
  "startswith s p = prefix p s"

definition endswith :: "string \<Rightarrow> string \<Rightarrow> bool" where
  "endswith s p = suffix p s"

fun validate_enc :: "pyval \<Rightarrow> bool option" where
  "validate_enc (VStr item) =
     (if item = [] \<or> startswith item ''ENC['' then Some True else None)"
| "validate_enc (VList item) = Some (list_all (\<lambda>i. truthy (validate_enc i)) item)"
| "validate_enc (VDict item) =
     Some (list_all (\<lambda>i. truthy (validate_enc i)) (map snd item))"
| "validate_enc _ = Some False"

section \<open>Python operations the hook uses\<close>

text \<open>
  Sequencing of operations that may raise: the first exception ends the computation.
\<close>

definition bind_exn :: "exn + 'a \<Rightarrow> ('a \<Rightarrow> exn + 'b) \<Rightarrow> exn + 'b" where
  "bind_exn m f = (case m of Inl e \<Rightarrow> Inl e | Inr x \<Rightarrow> f x)"

text \<open>\<^verbatim>\<open>xs[i]\<close> on a list or a string: a negative index counts from the end.\<close>

definition list_index :: "'a list \<Rightarrow> int \<Rightarrow> exn + 'a" where
  "list_index xs i =
     (if 0 \<le> i \<and> i < int (length xs) then Inr (xs ! nat i)
      else if i < 0 \<and> - int (length xs) \<le> i then Inr (xs ! nat (int (length xs) + i))
      else Inl IndexError)"

text \<open>
  \<^verbatim>\<open>container[key]\<close>. A dict raises \<^verbatim>\<open>KeyError\<close> for a key it does not hold and
  \<^verbatim>\<open>TypeError\<close> for an unhashable one; a list and a string take an integer (a boolean
  is one) and raise \<^verbatim>\<open>TypeError\<close> for anything else; numbers, booleans and
  \<^verbatim>\<open>None\<close> are not subscriptable.
\<close>

fun getitem :: "pyval \<Rightarrow> pyval \<Rightarrow> exn + pyval" where
  "getitem (VDict d) (VStr k) = (case map_of d k of None \<Rightarrow> Inl KeyError | Some v \<Rightarrow> Inr v)"
| "getitem (VDict d) (VList l) = Inl TypeError"
| "getitem (VDict d) (VDict l) = Inl TypeError"
| "getitem (VDict d) k = Inl KeyError"
| "getitem (VList xs) (VInt i) = list_index xs i"
| "getitem (VList xs) (VBool b) = list_index xs (if b then 1 else 0)"
| "getitem (VList xs) k = Inl TypeError"
| "getitem (VStr s) (VInt i) = bind_exn (list_index s i) (\<lambda>c. Inr (VStr [c]))"
| "getitem (VStr s) (VBool b) =
     bind_exn (list_index s (if b then 1 else 0)) (\<lambda>c. Inr (VStr [c]))"
| "getitem (VStr s) k = Inl TypeError"
| "getitem v k = Inl TypeError"

text \<open>
  \<^verbatim>\<open>x in container\<close> for a string \<open>x\<close>: a substring test on a string, an element test
  on a list, a key test on a dict, \<^verbatim>\<open>TypeError\<close> on a value that is not iterable.
\<close>

fun is_substring :: "string \<Rightarrow> string \<Rightarrow> bool" where
  "is_substring x [] = (x = [])"
| "is_substring x (c # cs) = (prefix x (c # cs) \<or> is_substring x cs)"

fun contains :: "pyval \<Rightarrow> string \<Rightarrow> exn + bool" where
  "contains (VStr s) x = Inr (is_substring x s)"
| "contains (VList xs) x = Inr (VStr x \<in> set xs)"
| "contains (VDict d) x = Inr (x \<in> set (map fst d))"
| "contains v x = Inl TypeError"

text \<open>
  \<^verbatim>\<open>for k in doc\<close>: the characters of a string (each a string of length one), the
  elements of a list, the keys of a dict in their order.
\<close>

fun iterate :: "pyval \<Rightarrow> exn + pyval list" where
  "iterate (VStr s) = Inr (map (\<lambda>c. VStr [c]) s)"
| "iterate (VList xs) = Inr xs"
| "iterate (VDict d) = Inr (map (\<lambda>kv. VStr (fst kv)) d)"
| "iterate v = Inl TypeError"

text \<open>
  \<^verbatim>\<open>s.strip(chars)\<close> removes from both ends of \<open>s\<close> every character that
  occurs in \<open>chars\<close>; \<^verbatim>\<open>s.split(sep)\<close> cuts \<open>s\<close> at every occurrence of the
  one-character separator and never returns an empty list; \<^verbatim>\<open>sep.join(items)\<close>
  raises \<^verbatim>\<open>TypeError\<close> when an item is not a string.
\<close>

definition str_strip :: "string \<Rightarrow> string \<Rightarrow> string" where
  "str_strip s chars =
     rev (dropWhile (\<lambda>c. c \<in> set chars) (rev (dropWhile (\<lambda>c. c \<in> set chars) s)))"

fun str_split :: "string \<Rightarrow> char \<Rightarrow> string list" where
  "str_split [] sep = [[]]"
| "str_split (c # cs) sep =
     (if c = sep then [] # str_split cs sep
      else (case str_split cs sep of w # ws \<Rightarrow> (c # w) # ws | [] \<Rightarrow> [[c]]))"

fun join :: "string \<Rightarrow> string list \<Rightarrow> string" where
  "join sep [] = []"
| "join sep [x] = x"
| "join sep (x # y # ys) = x @ sep @ join sep (y # ys)"

fun strs_of :: "pyval list \<Rightarrow> string list option" where
  "strs_of [] = Some []"
| "strs_of (VStr s # items) = map_option ((#) s) (strs_of items)"
| "strs_of (v # items) = None"

definition str_join :: "string \<Rightarrow> pyval list \<Rightarrow> exn + string" where
  "str_join sep items =
     (case strs_of items of None \<Rightarrow> Inl TypeError | Some ss \<Rightarrow> Inr (join sep ss))"

text \<open>The method call \<^verbatim>\<open>v.strip(chars)\<close>: only a string has the method.\<close>

definition attr_strip :: "pyval \<Rightarrow> string \<Rightarrow> exn + string" where
  "attr_strip v chars =
     (case v of VStr s \<Rightarrow> Inr (str_strip s chars) | _ \<Rightarrow> Inl AttributeError)"

section \<open>The environment\<close>

text \<open>
  What the hook reads from outside: \<open>open_file\<close> is \<^verbatim>\<open>open(name, encoding="utf-8")\<close>,
  which raises or gives the file's content; \<open>json_load\<close> and \<open>yaml_load\<close> are
  \<^verbatim>\<open>json.load\<close> and the safe \<^verbatim>\<open>ruamel.yaml\<close> loader applied to that content
  (reading and decoding happen inside them), each raising or returning the parsed value.
  The parsers are library code, so they are parameters.
\<close>

record env =
  open_file :: "string \<Rightarrow> exn + string"
  json_load :: "string \<Rightarrow> exn + pyval"
  yaml_load :: "string \<Rightarrow> exn + pyval"

section \<open>The key filter\<close>

definition sops_config :: string where
  "sops_config = ''.sops.yaml''"

text \<open>The characters of the argument of \<^verbatim>\<open>.strip("'$^()")\<close>.\<close>

definition strip_set :: string where
  "strip_set = [CHR 0x27, CHR ''$'', CHR ''^'', CHR ''('', CHR '')'']"

text \<open>
  \<^verbatim>\<open>(config["creation_rules"][0]["encrypted_regex"]).strip("'$^()").split("|")\<close>
\<close>

definition encrypted_regex_of :: "pyval \<Rightarrow> exn + string list" where
  "encrypted_regex_of config =
     bind_exn (getitem config (VStr ''creation_rules'')) (\<lambda>rules.
     bind_exn (getitem rules (VInt 0)) (\<lambda>rule.
     bind_exn (getitem rule (VStr ''encrypted_regex'')) (\<lambda>regex.
     bind_exn (attr_strip regex strip_set) (\<lambda>stripped.
     Inr (str_split stripped CHR ''|'')))))"

text \<open>
  Lines 77 to 90 of the source. \<open>Inl\<close> is the early \<^verbatim>\<open>return\<close> of the inner
  handler (\<^verbatim>\<open>except ParserError\<close>); \<open>Inr\<close> is the value of
  \<^verbatim>\<open>encrypted_regex\<close> after the block, the empty list when the outer handler
  (\<^verbatim>\<open>except Exception: pass\<close>) caught an exception.
\<close>

definition config_block :: "env \<Rightarrow> verdict + string list" where
  "config_block env =
     (case open_file env sops_config of
        Inl e \<Rightarrow> Inr []
      | Inr sc \<Rightarrow>
          (case yaml_load env sc of
             Inl e \<Rightarrow>
               if e = ParserError then Inl (False, sops_config @ '' is not readable'')
               else Inr []
           | Inr config \<Rightarrow>
               (case encrypted_regex_of config of
                  Inl e \<Rightarrow> Inr []
                | Inr encrypted_regex \<Rightarrow> Inr encrypted_regex)))"

section \<open>Checking one file\<close>

text \<open>
  The loop of lines 92 to 97: \<open>ks\<close> is what is left of the iteration over
  \<^verbatim>\<open>doc\<close>, \<open>invalid_keys\<close> the list collected so far.
\<close>

fun keys_loop :: "pyval \<Rightarrow> string list \<Rightarrow> pyval list \<Rightarrow> pyval list \<Rightarrow> exn + pyval list" where
  "keys_loop doc encrypted_regex [] invalid_keys = Inr invalid_keys"
| "keys_loop doc encrypted_regex (k # ks) invalid_keys =
     (if k \<noteq> VStr ''sops'' \<and> (k \<in> set (map VStr encrypted_regex) \<or> encrypted_regex = [])
      then
        (case getitem doc k of
           Inl e \<Rightarrow> Inl e
         | Inr v \<Rightarrow>
             if \<not> truthy (validate_enc v)
             then keys_loop doc encrypted_regex ks (invalid_keys @ [k])
             else keys_loop doc encrypted_regex ks invalid_keys)
      else keys_loop doc encrypted_regex ks invalid_keys)"

text \<open>Lines 92 to 105: the loop and the verdict built from its result.\<close>

definition validate_keys :: "string \<Rightarrow> pyval \<Rightarrow> string list \<Rightarrow> exn + verdict" where
  "validate_keys filename doc encrypted_regex =
     bind_exn (iterate doc) (\<lambda>ks.
     bind_exn (keys_loop doc encrypted_regex ks []) (\<lambda>invalid_keys.
       if invalid_keys \<noteq> [] then
         bind_exn (str_join '','' invalid_keys) (\<lambda>joined.
           Inr (False, filename @ '': Unencrypted values found nested under keys: '' @ joined))
       else Inr (True, filename @ '': Valid encryption'')))"

text \<open>
  \<^verbatim>\<open>check_file\<close>. \<open>Inl e\<close>: the call raises \<open>e\<close>; \<open>Inr (valid, message)\<close>: it
  returns the pair.
\<close>

definition loader_func :: "env \<Rightarrow> string \<Rightarrow> string \<Rightarrow> exn + pyval" where
  "loader_func env filename =
     (if endswith filename ''.yaml'' then yaml_load env else json_load env)"

definition check_file :: "env \<Rightarrow> string \<Rightarrow> exn + verdict" where
  "check_file env filename =
     (case open_file env filename of
        Inl e \<Rightarrow> Inl e
      | Inr f \<Rightarrow>
          (case loader_func env filename f of
             Inl e \<Rightarrow>
               if e = ParserError
               then Inr (False, filename @ '': Not valid JSON or YAML, is not properly encrypted'')
               else Inl e
           | Inr doc \<Rightarrow>
               (case contains doc ''sops'' of
                  Inl e \<Rightarrow> Inl e
                | Inr has_sops \<Rightarrow>
                    if \<not> has_sops
                    then Inr (False, filename @
                      '': sops metadata key not found in file, is not properly encrypted'')
                    else
                      (case config_block env of
                         Inl early \<Rightarrow> Inr early
                       | Inr encrypted_regex \<Rightarrow> validate_keys filename doc encrypted_regex))))"

section \<open>The command line\<close>

text \<open>
  \<^verbatim>\<open>main\<close>, from the parsed \<^verbatim>\<open>args.filenames\<close> on. The argument is declared with
  \<^verbatim>\<open>nargs="+"\<close>, so for an empty list \<^verbatim>\<open>parse_args\<close> prints a usage error and
  exits with status 2 before the loop. \<open>Returns code out\<close>: \<^verbatim>\<open>main\<close> returns
  \<open>code\<close> after printing \<open>out\<close> on standard output; \<open>Raises e\<close>: an exception of
  \<^verbatim>\<open>check_file\<close> leaves \<^verbatim>\<open>main\<close>, with nothing printed on standard output.
\<close>

datatype main_result = Returns int string | Raises exn | UsageError

fun files_loop :: "env \<Rightarrow> string list \<Rightarrow> string list \<Rightarrow> exn + string list" where
  "files_loop env [] failed_messages = Inr failed_messages"
| "files_loop env (f # fs) failed_messages =
     (case check_file env f of
        Inl e \<Rightarrow> Inl e
      | Inr (is_valid, message) \<Rightarrow>
          if \<not> is_valid then files_loop env fs (failed_messages @ [message])
          else files_loop env fs failed_messages)"

definition print :: "string \<Rightarrow> string" where
  "print s = s @ [CHR 0x0A]"

definition main :: "env \<Rightarrow> string list \<Rightarrow> main_result" where
  "main env filenames =
     (if filenames = [] then UsageError
      else
        (case files_loop env filenames [] of
           Inl e \<Rightarrow> Raises e
         | Inr failed_messages \<Rightarrow>
             if failed_messages \<noteq> [] then Returns 1 (print (join [CHR 0x0A] failed_messages))
             else Returns 0 []))"

section \<open>Notions used to state the properties\<close>

text \<open>
  The keys of a dict that the loop of \<^verbatim>\<open>check_file\<close> reports for a given value of
  \<^verbatim>\<open>encrypted_regex\<close>: every key other than \<^verbatim>\<open>sops\<close> that is selected (it is
  an element of the list, or the list is empty) and whose value fails
  \<^verbatim>\<open>validate_enc\<close>, in the order of the document.
\<close>

definition offending_keys :: "string list \<Rightarrow> (string \<times> pyval) list \<Rightarrow> string list" where
  "offending_keys encrypted_regex kvs =
     map fst (filter (\<lambda>kv. fst kv \<noteq> ''sops''
        \<and> (fst kv \<in> set encrypted_regex \<or> encrypted_regex = [])
        \<and> \<not> truthy (validate_enc (snd kv))) kvs)"

text \<open>The same dict with another value \<open>w\<close> stored under the metadata key.\<close>

definition replace_sops :: "pyval \<Rightarrow> (string \<times> pyval) list \<Rightarrow> (string \<times> pyval) list" where
  "replace_sops w kvs = map (\<lambda>kv. if fst kv = ''sops'' then (fst kv, w) else kv) kvs"

text \<open>
  The shape section 6 of the specification gives for the configuration,
  \<^verbatim>\<open>{"creation_rules": [{"encrypted_regex": "<string>"}, ...]}\<close>: the string, when the
  parsed configuration has that shape, \<open>None\<close> for every other value.
\<close>

definition config_regex :: "pyval \<Rightarrow> string option" where
  "config_regex config =
     (case config of
        VDict kvs \<Rightarrow>
          (case map_of kvs ''creation_rules'' of
             Some (VList (VDict rule # rules)) \<Rightarrow>
               (case map_of rule ''encrypted_regex'' of
                  Some (VStr regex) \<Rightarrow> Some regex
                | _ \<Rightarrow> None)
           | _ \<Rightarrow> None)
      | _ \<Rightarrow> None)"

text \<open>
  The specification calls the patterns of the key filter regular expressions. The
  source holds no regular-expression engine, so for comparison this is the reading of
  the specification on the smallest fragment of regular expressions: a pattern of
  literal characters and the wildcard \<^verbatim>\<open>.\<close> (any one character), matched against
  the whole key.
\<close>

fun spec_regex_match :: "string \<Rightarrow> string \<Rightarrow> bool" where
  "spec_regex_match [] [] = True"
| "spec_regex_match (p # ps) (c # cs) = ((p = CHR ''.'' \<or> p = c) \<and> spec_regex_match ps cs)"
| "spec_regex_match ps cs = False"

section \<open>Concrete environments\<close>

text \<open>
  An environment given by tables: the files that exist with their content (every other
  name cannot be opened), and what each parser does on a content. The tables of the
  scenarios below list what \<^verbatim>\<open>json.load\<close> and the YAML loader return or raise on
  the texts shown.
\<close>

definition scenario_env ::
  "(string \<times> string) list \<Rightarrow> (string \<times> (exn + pyval)) list
     \<Rightarrow> (string \<times> (exn + pyval)) list \<Rightarrow> env" where
  "scenario_env files json yaml =
     \<lparr> open_file = (\<lambda>name. case map_of files name of None \<Rightarrow> Inl OSError | Some c \<Rightarrow> Inr c),
       json_load = (\<lambda>c. case map_of json c of None \<Rightarrow> Inl JSONDecodeError | Some r \<Rightarrow> r),
       yaml_load = (\<lambda>c. case map_of yaml c of None \<Rightarrow> Inl ScannerError | Some r \<Rightarrow> r) \<rparr>"

text \<open>Scenarios A to D of section 8 of the specification, as JSON texts and their values.\<close>

definition scenario_a_text :: string where
  \<open>scenario_a_text = ''{"sops": {}, "a": "ENC[AES256...]"}''\<close>

definition scenario_a_doc :: "(string \<times> pyval) list" where
  "scenario_a_doc = [(''sops'', VDict []), (''a'', VStr ''ENC[AES256...]'')]"

definition scenario_b_text :: string where
  \<open>scenario_b_text = ''{"a": "plaintext"}''\<close>

definition scenario_b_doc :: "(string \<times> pyval) list" where
  "scenario_b_doc = [(''a'', VStr ''plaintext'')]"

definition scenario_c_text :: string where
  \<open>scenario_c_text = ''{"sops": {}, "a": "plaintext", "b": "ENC[x]"}''\<close>

definition scenario_c_doc :: "(string \<times> pyval) list" where
  "scenario_c_doc =
     [(''sops'', VDict []), (''a'', VStr ''plaintext''), (''b'', VStr ''ENC[x]'')]"

definition scenario_d_text :: string where
  "scenario_d_text = ''{not valid}''"

text \<open>
  A configuration file with the regular expression \<open>r\<close>, as one line of YAML, and the
  value the YAML loader returns for it.
\<close>

definition config_text :: "string \<Rightarrow> string" where
  \<open>config_text r = ''creation_rules: [{encrypted_regex: "'' @ r @ ''"}]''\<close>

definition config_doc :: "string \<Rightarrow> pyval" where
  "config_doc r = VDict [(''creation_rules'', VList [VDict [(''encrypted_regex'', VStr r)]])]"

text \<open>The document of the key-filter example of section 8, as one line of YAML.\<close>

definition narrowing_text :: string where
  \<open>narrowing_text = ''{sops: {}, data: {x: "ENC[...]"}, other: 12345}''\<close>

definition narrowing_doc :: "(string \<times> pyval) list" where
  "narrowing_doc =
     [(''sops'', VDict []), (''data'', VDict [(''x'', VStr ''ENC[...]'')]),
      (''other'', VInt 12345)]"

text \<open>A document whose only other key holds a number, and metadata with plain leaves.\<close>

definition number_text :: string where
  \<open>number_text = ''{sops: {}, data: 12345}''\<close>

definition number_doc :: "(string \<times> pyval) list" where
  "number_doc = [(''sops'', VDict []), (''data'', VInt 12345)]"

definition metadata_text :: string where
  \<open>metadata_text = ''{"sops": {"version": "3.7.1", "mac": 5}, "a": "ENC[AES256...]"}''\<close>

definition metadata_value :: pyval where
  "metadata_value = VDict [(''version'', VStr ''3.7.1''), (''mac'', VInt 5)]"

text \<open>A JSON file that holds one string, and one that holds one number.\<close>

definition string_root_text :: string where
  \<open>string_root_text = ''"my sops secret"''\<close>

definition number_root_text :: string where
  "number_root_text = ''12345''"

text \<open>JSON files that hold a list, and a YAML file with no content.\<close>

definition list_root_text :: string where
  \<open>list_root_text = ''["a"]''\<close>

definition sops_list_text :: string where
  \<open>sops_list_text = ''["sops", "my password"]''\<close>

definition empty_text :: string where
  "empty_text = []"

section \<open>Auxiliary facts\<close>

lemma endswith_rev: "endswith s p = prefix (rev p) (rev s)"
  by (simp add: endswith_def suffix_to_prefix)


lemmas scenario_simps = scenario_env_def loader_func_def endswith_rev startswith_def
  sops_config_def offending_keys_def

lemmas config_simps = config_block_def encrypted_regex_of_def bind_exn_def list_index_def
  attr_strip_def str_strip_def strip_set_def config_text_def config_doc_def

lemma strs_of_map_VStr: "strs_of (map VStr ss) = Some ss"
  by (induction ss) simp_all

lemma str_join_strs: "str_join sep (map VStr ss) = Inr (join sep ss)"
  by (simp add: str_join_def strs_of_map_VStr)

subsection \<open>The loop over the keys of a dict\<close>

lemma keys_loop_dict:
  assumes "distinct (map fst kvs)" and "set ps \<subseteq> set kvs"
  shows "keys_loop (VDict kvs) encrypted_regex (map (\<lambda>kv. VStr (fst kv)) ps) acc
         = Inr (acc @ map VStr (offending_keys encrypted_regex ps))"
  using assms(2)
proof (induction ps arbitrary: acc)
  case Nil
  then show ?case by (simp add: offending_keys_def)
next
  case (Cons p ps)
  obtain k v where p: "p = (k, v)" by (cases p)
  from Cons.prems p have "(k, v) \<in> set kvs" by simp
  with assms(1) have look: "map_of kvs k = Some v" by (rule map_of_is_SomeI)
  from Cons.prems have sub: "set ps \<subseteq> set kvs" by simp
  have inj: "(VStr k \<in> VStr ` set encrypted_regex) = (k \<in> set encrypted_regex)" by auto
  show ?case
    using Cons.IH [OF sub] look by (simp add: p offending_keys_def inj)
qed

lemma validate_keys_dict:
  assumes "distinct (map fst kvs)"
  shows "validate_keys filename (VDict kvs) encrypted_regex =
     Inr (if offending_keys encrypted_regex kvs \<noteq> []
          then (False, filename @ '': Unencrypted values found nested under keys: ''
                  @ join '','' (offending_keys encrypted_regex kvs))
          else (True, filename @ '': Valid encryption''))"
  using keys_loop_dict [OF assms subset_refl, of encrypted_regex "[]"]
  by (simp add: validate_keys_def bind_exn_def str_join_strs)

lemma keys_loop_no_sops:
  "keys_loop doc encrypted_regex ks acc = Inr bad \<Longrightarrow> VStr ''sops'' \<notin> set acc
   \<Longrightarrow> VStr ''sops'' \<notin> set bad"
proof (induction ks arbitrary: acc)
  case Nil
  then show ?case by simp
next
  case (Cons k ks)
  then show ?case
    by (auto split: if_splits sum.splits)
qed

subsection \<open>Replacing the value of the metadata key\<close>

lemma map_of_replace_sops:
  "k \<noteq> ''sops'' \<Longrightarrow> map_of (replace_sops w kvs) k = map_of kvs k"
  by (induction kvs) (auto simp: replace_sops_def)

lemma getitem_replace_sops:
  "k \<noteq> VStr ''sops'' \<Longrightarrow> getitem (VDict (replace_sops w kvs)) k = getitem (VDict kvs) k"
  by (cases k) (simp_all add: map_of_replace_sops)

lemma keys_loop_replace_sops:
  "keys_loop (VDict (replace_sops w kvs)) encrypted_regex ks acc
   = keys_loop (VDict kvs) encrypted_regex ks acc"
  by (induction ks arbitrary: acc) (simp_all add: getitem_replace_sops split: sum.split)

lemma keys_replace_sops:
  "map (\<lambda>kv. VStr (fst kv)) (replace_sops w kvs) = map (\<lambda>kv. VStr (fst kv)) kvs"
  by (induction kvs) (simp_all add: replace_sops_def)

lemma fst_replace_sops: "map fst (replace_sops w kvs) = map fst kvs"
  by (induction kvs) (simp_all add: replace_sops_def)

lemma validate_keys_replace_sops:
  "validate_keys filename (VDict (replace_sops w kvs)) encrypted_regex
   = validate_keys filename (VDict kvs) encrypted_regex"
  by (simp add: validate_keys_def keys_replace_sops keys_loop_replace_sops)

subsection \<open>The loop over the characters of a string\<close>


subsection \<open>The expression that reads the configuration\<close>

lemma encrypted_regex_of_shape:
  "encrypted_regex_of config =
     (case config_regex config of
        Some regex \<Rightarrow> Inr (str_split (str_strip regex strip_set) CHR ''|'')
      | None \<Rightarrow> encrypted_regex_of config)
   \<and> (config_regex config = None \<longrightarrow> (\<exists>e. encrypted_regex_of config = Inl e))"
proof (cases config)
  case (VDict kvs)
  show ?thesis
  proof (cases "map_of kvs ''creation_rules''")
    case None
    with VDict show ?thesis
      by (simp add: encrypted_regex_of_def config_regex_def bind_exn_def)
  next
    case (Some rules)
    show ?thesis
    proof (cases rules)
      case (VList xs)
      show ?thesis
      proof (cases xs)
        case Nil
        with VDict Some VList show ?thesis
          by (simp add: encrypted_regex_of_def config_regex_def bind_exn_def list_index_def)
      next
        case (Cons rule rest)
        show ?thesis
        proof (cases rule)
          case inner: (VDict r)
          show ?thesis
          proof (cases "map_of r ''encrypted_regex''")
            case None
            with VDict Some VList Cons inner show ?thesis
              by (simp add: encrypted_regex_of_def config_regex_def bind_exn_def list_index_def)
          next
            case found: (Some regex)
            with VDict Some VList Cons inner show ?thesis
              by (cases regex)
                (simp_all add: encrypted_regex_of_def config_regex_def bind_exn_def
                  list_index_def attr_strip_def)
          qed
        qed (use VDict Some VList Cons in
            \<open>simp_all add: encrypted_regex_of_def config_regex_def bind_exn_def list_index_def\<close>)
      qed
    next
      case (VStr s)
      with VDict Some show ?thesis
        by (cases s)
          (simp_all add: encrypted_regex_of_def config_regex_def bind_exn_def list_index_def)
    qed (use VDict Some in
        \<open>simp_all add: encrypted_regex_of_def config_regex_def bind_exn_def\<close>)
  qed
qed (simp_all add: encrypted_regex_of_def config_regex_def bind_exn_def)

subsection \<open>Splitting, joining and stripping\<close>

lemma str_split_not_Nil: "str_split s sep \<noteq> []"
  by (induction s) (simp_all split: list.split)

lemma str_split_append:
  "sep \<notin> set p \<Longrightarrow>
   str_split (p @ s) sep = (p @ hd (str_split s sep)) # tl (str_split s sep)"
proof (induction p)
  case Nil
  then show ?case using str_split_not_Nil [of s sep] by simp
next
  case (Cons c p)
  then show ?case by auto
qed

lemma str_split_no_sep: "sep \<notin> set p \<Longrightarrow> str_split p sep = [p]"
  using str_split_append [of sep p "[]"] by simp

lemma str_split_join:
  "ps \<noteq> [] \<Longrightarrow> \<forall>p \<in> set ps. sep \<notin> set p \<Longrightarrow> str_split (join [sep] ps) sep = ps"
proof (induction "[sep]" ps rule: join.induct)
  case 1
  then show ?case by simp
next
  case (2 x)
  then show ?case by (simp add: str_split_no_sep)
next
  case (3 x y ys)
  then show ?case by (simp add: str_split_append)
qed

lemma join_Nil_iff: "join [sep] ps = [] \<longleftrightarrow> ps = [] \<or> ps = [[]]"
  by (induction "[sep]" ps rule: join.induct) simp_all

lemma hd_join:
  "ps \<noteq> [] \<Longrightarrow> join [sep] ps \<noteq> [] \<Longrightarrow>
   hd (join [sep] ps) = (if hd ps = [] then sep else hd (hd ps))"
  by (induction "[sep]" ps rule: join.induct) (simp_all add: hd_append)

lemma last_join:
  "ps \<noteq> [] \<Longrightarrow> join [sep] ps \<noteq> [] \<Longrightarrow>
   last (join [sep] ps) = (if last ps = [] then sep else last (last ps))"
proof (induction "[sep]" ps rule: join.induct)
  case (3 x y ys)
  then show ?case
    by (cases "join [sep] (y # ys) = []") (auto simp: join_Nil_iff)
qed simp_all

lemma join_lines:
  "msgs \<noteq> [] \<Longrightarrow> join [nl] msgs @ [nl] = concat (map (\<lambda>m. m @ [nl]) msgs)"
  by (induction "[nl]" msgs rule: join.induct) simp_all

lemma str_strip_wrapper:
  assumes "body = [] \<or> (hd body \<notin> set strip_set \<and> last body \<notin> set strip_set)"
  shows "str_strip (''^('' @ body @ '')$'') strip_set = body"
proof (cases "body = []")
  case True
  then show ?thesis by (simp add: str_strip_def strip_set_def)
next
  case False
  with assms have h: "hd body \<notin> set strip_set" and l: "last body \<notin> set strip_set" by auto
  from False obtain b bs where b: "body = b # bs" by (cases body) auto
  from False obtain ys y where y: "body = ys @ [y]" by (cases body rule: rev_cases) auto
  have front: "dropWhile (\<lambda>c. c \<in> set strip_set) (''^('' @ body @ '')$'') = body @ '')$''"
    using h b by (simp add: strip_set_def)
  have rear: "dropWhile (\<lambda>c. c \<in> set strip_set) (rev (body @ '')$'')) = rev body"
    using l y by (simp add: strip_set_def)
  show ?thesis
    unfolding str_strip_def front rear by simp
qed

subsection \<open>The loop over the files\<close>

lemma files_loop_verdicts:
  "\<forall>f \<in> set fs. check_file env f = Inr (verdict f) \<Longrightarrow>
   files_loop env fs acc =
     Inr (acc @ map (\<lambda>f. snd (verdict f)) (filter (\<lambda>f. \<not> fst (verdict f)) fs))"
proof (induction fs arbitrary: acc)
  case Nil
  then show ?case by simp
next
  case (Cons g fs)
  then show ?case by (cases "verdict g") simp
qed

lemma files_loop_raises:
  "\<forall>g \<in> set pre. check_file env g = Inr (verdict g) \<Longrightarrow> check_file env f = Inl e \<Longrightarrow>
   files_loop env (pre @ f # post) acc = Inl e"
proof (induction pre arbitrary: acc)
  case Nil
  then show ?case by simp
next
  case (Cons g pre)
  then show ?case by (cases "verdict g") simp
qed

lemmas scenario_data = scenario_a_text_def scenario_a_doc_def scenario_b_text_def
  scenario_b_doc_def scenario_c_text_def scenario_c_doc_def scenario_d_text_def
  narrowing_text_def narrowing_doc_def number_text_def number_doc_def metadata_text_def
  metadata_value_def string_root_text_def number_root_text_def list_root_text_def
  sops_list_text_def empty_text_def

lemmas check_file_eval = check_file_def validate_keys_def str_join_def bind_exn_def

section \<open>Properties of the leaf rule\<close>

text \<open>
  C6. \<^verbatim>\<open>validate_enc(v)\<close> holds (is truthy) exactly when \<open>v\<close> is a string that is
  empty or starts with \<^verbatim>\<open>ENC[\<close>, or a list all of whose elements pass, or a dict all
  of whose values pass; a number, a boolean and \<^verbatim>\<open>None\<close> fail. In particular the
  empty string passes.
\<close>

theorem validate_enc_iff:
  "truthy (validate_enc v) =
     (case v of
        VStr s \<Rightarrow> s = [] \<or> prefix ''ENC['' s
      | VList xs \<Rightarrow> (\<forall>x \<in> set xs. truthy (validate_enc x))
      | VDict kvs \<Rightarrow> (\<forall>x \<in> snd ` set kvs. truthy (validate_enc x))
      | VInt n \<Rightarrow> False
      | VFloat r \<Rightarrow> False
      | VBool b \<Rightarrow> False
      | VNull \<Rightarrow> False)
   \<and> truthy (validate_enc (VStr []))"
  by (cases v) (simp_all add: startswith_def list_all_iff)

theorem validate_enc_iff_witness:
  "truthy (validate_enc (VDict [(''a'', VList [VStr ''ENC[x]'', VStr []])]))
   \<and> \<not> truthy (validate_enc (VDict [(''a'', VList [VStr ''ENC[x]'', VInt 5])]))
   \<and> \<not> truthy (validate_enc (VStr ''plaintext''))"
  using validate_enc_iff [of "VDict [(''a'', VList [VStr ''ENC[x]'', VStr []])]"]
    validate_enc_iff [of "VDict [(''a'', VList [VStr ''ENC[x]'', VInt 5])]"]
    validate_enc_iff [of "VList [VStr ''ENC[x]'', VStr []]"]
    validate_enc_iff [of "VList [VStr ''ENC[x]'', VInt 5]"]
    validate_enc_iff [of "VStr ''ENC[x]''"]
    validate_enc_iff [of "VInt 5"]
    validate_enc_iff [of "VStr ''plaintext''"]
  by simp

section \<open>Properties of \<^verbatim>\<open>check_file\<close> on a document that is a mapping\<close>

text \<open>
  C5, as the code has it. When the file parses to a mapping that has no key
  \<^verbatim>\<open>sops\<close>, \<^verbatim>\<open>check_file\<close>
  returns \<^verbatim>\<open>False\<close> with the message that names the file and says that it is not
  properly encrypted. Nothing is assumed about the configuration file, and the verdict
  does not depend on the values stored in the mapping: no leaf is examined.
\<close>

theorem missing_metadata_key:
  assumes "open_file env filename = Inr f"
    and "loader_func env filename f = Inr (VDict kvs)"
    and "''sops'' \<notin> fst ` set kvs"
  shows "check_file env filename =
     Inr (False, filename @ '': sops metadata key not found in file, is not properly encrypted'')"
  using assms by (simp add: check_file_def)

text \<open>Scenario B: \<^verbatim>\<open>{"a": "plaintext"}\<close>.\<close>

theorem missing_metadata_key_witness:
  "check_file
     (scenario_env [(''secrets.json'', scenario_b_text)]
        [(scenario_b_text, Inr (VDict scenario_b_doc))] [])
     ''secrets.json'' =
   Inr (False,
     ''secrets.json: sops metadata key not found in file, is not properly encrypted'')"
  using missing_metadata_key
    [of "scenario_env [(''secrets.json'', scenario_b_text)]
           [(scenario_b_text, Inr (VDict scenario_b_doc))] []"
        "''secrets.json''" scenario_b_text scenario_b_doc]
  by (simp add: scenario_simps scenario_data)

text \<open>
  C5 as stated fails for a parsed document that is not a mapping. A YAML file with no
  content parses to \<^verbatim>\<open>None\<close>, which has no key \<^verbatim>\<open>sops\<close>: the metadata test
  raises \<^verbatim>\<open>TypeError\<close> and no verdict is returned. The JSON list
  \<^verbatim>\<open>["sops", "my password"]\<close> has no key \<^verbatim>\<open>sops\<close> either; it passes the
  metadata test as an element test, and beside the filter \<^verbatim>\<open>^(data)$\<close> the file
  is reported valid.
\<close>

theorem non_mapping_document_counterexample:
  "check_file
     (scenario_env [(''secrets.yaml'', empty_text)] [] [(empty_text, Inr VNull)])
     ''secrets.yaml'' =
   Inl TypeError
   \<and> check_file
     (scenario_env
        [(''secrets.json'', sops_list_text), (''.sops.yaml'', config_text ''^(data)$'')]
        [(sops_list_text, Inr (VList [VStr ''sops'', VStr ''my password'']))]
        [(config_text ''^(data)$'', Inr (config_doc ''^(data)$''))])
     ''secrets.json'' =
   Inr (True, ''secrets.json: Valid encryption'')"
  by (simp add: check_file_eval scenario_simps scenario_data config_simps)

text \<open>
  C8, as the code has it. For a mapping whose keys are strings and that has the key
  \<^verbatim>\<open>sops\<close>: when the
  configuration block has produced the list \<^verbatim>\<open>encrypted_regex\<close> (empty when there
  is no filter) and some checked key fails the leaf rule, the verdict is \<^verbatim>\<open>False\<close>
  and the message lists the names of all failing keys, in the order of the document,
  joined by commas; when none fails the verdict is \<^verbatim>\<open>True\<close>. The configuration
  block produces such a list unless the YAML loader raises \<^verbatim>\<open>ParserError\<close> on the
  configuration file; then the verdict is \<^verbatim>\<open>False\<close> with the message
  \<^verbatim>\<open>.sops.yaml is not readable\<close>, whatever the keys hold.
\<close>

theorem check_file_verdict:
  assumes "open_file env filename = Inr f"
    and "loader_func env filename f = Inr (VDict kvs)"
    and "distinct (map fst kvs)"
    and "''sops'' \<in> fst ` set kvs"
  shows "(config_block env = Inr encrypted_regex \<longrightarrow>
        check_file env filename =
          Inr (if offending_keys encrypted_regex kvs \<noteq> []
               then (False, filename @ '': Unencrypted values found nested under keys: ''
                       @ join '','' (offending_keys encrypted_regex kvs))
               else (True, filename @ '': Valid encryption'')))
     \<and> ((\<exists>sc. open_file env sops_config = Inr sc \<and> yaml_load env sc = Inl ParserError) \<longrightarrow>
        check_file env filename = Inr (False, ''.sops.yaml is not readable''))
     \<and> ((\<exists>sc. open_file env sops_config = Inr sc \<and> yaml_load env sc = Inl ParserError)
        \<or> (\<exists>r. config_block env = Inr r))"
proof (intro conjI impI)
  assume "config_block env = Inr encrypted_regex"
  then show "check_file env filename =
          Inr (if offending_keys encrypted_regex kvs \<noteq> []
               then (False, filename @ '': Unencrypted values found nested under keys: ''
                       @ join '','' (offending_keys encrypted_regex kvs))
               else (True, filename @ '': Valid encryption''))"
    using assms by (simp add: check_file_def validate_keys_dict)
next
  assume "\<exists>sc. open_file env sops_config = Inr sc \<and> yaml_load env sc = Inl ParserError"
  then have "config_block env = Inl (False, ''.sops.yaml is not readable'')"
    by (auto simp: config_block_def sops_config_def)
  then show "check_file env filename = Inr (False, ''.sops.yaml is not readable'')"
    using assms by (simp add: check_file_def)
next
  show "(\<exists>sc. open_file env sops_config = Inr sc \<and> yaml_load env sc = Inl ParserError)
        \<or> (\<exists>r. config_block env = Inr r)"
    by (auto simp: config_block_def split: sum.splits)
qed

text \<open>
  Scenario C: \<^verbatim>\<open>{"sops": {}, "a": "plaintext", "b": "ENC[x]"}\<close> with no configuration
  file; the message lists only \<^verbatim>\<open>a\<close>. The same file beside a configuration file
  on which the loader raises \<^verbatim>\<open>ParserError\<close> (the unfinished
  \<^verbatim>\<open>creation_rules: {\<close>).
\<close>

theorem check_file_verdict_witness:
  "check_file
     (scenario_env [(''secrets.json'', scenario_c_text)]
        [(scenario_c_text, Inr (VDict scenario_c_doc))] [])
     ''secrets.json'' =
   Inr (False, ''secrets.json: Unencrypted values found nested under keys: a'')
   \<and> check_file
     (scenario_env
        [(''secrets.json'', scenario_c_text), (''.sops.yaml'', ''creation_rules: {'')]
        [(scenario_c_text, Inr (VDict scenario_c_doc))]
        [(''creation_rules: {'', Inl ParserError)])
     ''secrets.json'' =
   Inr (False, ''.sops.yaml is not readable'')"
  using check_file_verdict
    [of "scenario_env [(''secrets.json'', scenario_c_text)]
           [(scenario_c_text, Inr (VDict scenario_c_doc))] []"
        "''secrets.json''" scenario_c_text scenario_c_doc "[]"]
    check_file_verdict
    [of "scenario_env
           [(''secrets.json'', scenario_c_text), (''.sops.yaml'', ''creation_rules: {'')]
           [(scenario_c_text, Inr (VDict scenario_c_doc))]
           [(''creation_rules: {'', Inl ParserError)]"
        "''secrets.json''" scenario_c_text scenario_c_doc "[]"]
  by (simp add: scenario_simps scenario_data config_block_def)

text \<open>
  C8 as stated fails. In the file of scenario A the metadata key is present and the
  only other key passes the leaf rule, so no checked key fails; beside a configuration
  file on which the YAML loader raises \<^verbatim>\<open>ParserError\<close> the verdict is
  \<^verbatim>\<open>False\<close> all the same.
\<close>

theorem early_return_counterexample:
  "''sops'' \<in> fst ` set scenario_a_doc
   \<and> list_all (\<lambda>kv. truthy (validate_enc (snd kv)))
        (filter (\<lambda>kv. fst kv \<noteq> ''sops'') scenario_a_doc)
   \<and> check_file
       (scenario_env
          [(''secrets.json'', scenario_a_text), (''.sops.yaml'', ''creation_rules: {'')]
          [(scenario_a_text, Inr (VDict scenario_a_doc))]
          [(''creation_rules: {'', Inl ParserError)])
       ''secrets.json'' =
     Inr (False, ''.sops.yaml is not readable'')"
  by (simp add: check_file_eval scenario_simps scenario_data config_simps)

text \<open>
  C7. The value stored under \<^verbatim>\<open>sops\<close> is never given to the leaf rule: two runs
  that differ only in that value (\<open>kvs\<close> against \<open>replace_sops w kvs\<close>, for any
  \<open>w\<close>), with the same outcome of the configuration block whatever it is, end in
  the same result; and the list of keys that the loop collects never holds
  \<^verbatim>\<open>sops\<close>, for any list \<^verbatim>\<open>encrypted_regex\<close>.
\<close>

theorem metadata_value_exempt:
  assumes "open_file env filename = Inr f"
    and "loader_func env filename f = Inr (VDict kvs)"
    and "open_file env' filename = Inr f'"
    and "loader_func env' filename f' = Inr (VDict (replace_sops w kvs))"
    and "config_block env' = config_block env"
  shows "check_file env' filename = check_file env filename
     \<and> (\<forall>encrypted_regex bad.
           keys_loop (VDict kvs) encrypted_regex (map (\<lambda>kv. VStr (fst kv)) kvs) [] = Inr bad
           \<longrightarrow> VStr ''sops'' \<notin> set bad)"
proof
  have "(''sops'' \<in> fst ` set (replace_sops w kvs)) = (''sops'' \<in> fst ` set kvs)"
    using fst_replace_sops [of w kvs] by (metis set_map)
  then show "check_file env' filename = check_file env filename"
    using assms by (simp add: check_file_def validate_keys_replace_sops split: sum.split)
next
  show "\<forall>encrypted_regex bad.
           keys_loop (VDict kvs) encrypted_regex (map (\<lambda>kv. VStr (fst kv)) kvs) [] = Inr bad
           \<longrightarrow> VStr ''sops'' \<notin> set bad"
    using keys_loop_no_sops by fastforce
qed

text \<open>
  Scenario A against the same document with metadata that holds a plain string and a
  number.
\<close>

theorem metadata_value_exempt_witness:
  "check_file
     (scenario_env [(''secrets.json'', metadata_text)]
        [(metadata_text,
          Inr (VDict [(''sops'', metadata_value), (''a'', VStr ''ENC[AES256...]'')]))] [])
     ''secrets.json'' =
   check_file
     (scenario_env [(''secrets.json'', scenario_a_text)]
        [(scenario_a_text, Inr (VDict scenario_a_doc))] [])
     ''secrets.json''"
  using metadata_value_exempt
    [of "scenario_env [(''secrets.json'', scenario_a_text)]
           [(scenario_a_text, Inr (VDict scenario_a_doc))] []"
        "''secrets.json''" scenario_a_text scenario_a_doc
        "scenario_env [(''secrets.json'', metadata_text)]
           [(metadata_text,
             Inr (VDict [(''sops'', metadata_value), (''a'', VStr ''ENC[AES256...]'')]))] []"
        metadata_text metadata_value]
  by (simp add: scenario_simps scenario_data config_block_def replace_sops_def)

section \<open>The key filter\<close>

text \<open>
  C3, as the code has it. When the configuration block has produced a non-empty list
  \<^verbatim>\<open>encrypted_regex\<close>, a key other than \<^verbatim>\<open>sops\<close> is given to the leaf rule if
  and only if it is equal, as a string, to an element of the list (\<^verbatim>\<open>k in
  encrypted_regex\<close>); no regular expression is matched. Every other key is skipped:
  its value has no part in the verdict.
\<close>

theorem key_filter_literal_match:
  assumes "open_file env filename = Inr f"
    and "loader_func env filename f = Inr (VDict kvs)"
    and "distinct (map fst kvs)"
    and "''sops'' \<in> fst ` set kvs"
    and "config_block env = Inr encrypted_regex"
    and "encrypted_regex \<noteq> []"
  shows "check_file env filename =
     (let checked = filter (\<lambda>kv. fst kv \<noteq> ''sops'' \<and> fst kv \<in> set encrypted_regex) kvs;
          bad = map fst (filter (\<lambda>kv. \<not> truthy (validate_enc (snd kv))) checked)
      in Inr (if bad \<noteq> []
              then (False, filename @ '': Unencrypted values found nested under keys: ''
                      @ join '','' bad)
              else (True, filename @ '': Valid encryption'')))"
proof -
  have "offending_keys encrypted_regex kvs =
     map fst (filter (\<lambda>kv. \<not> truthy (validate_enc (snd kv)))
       (filter (\<lambda>kv. fst kv \<noteq> ''sops'' \<and> fst kv \<in> set encrypted_regex) kvs))"
    using assms(6) by (simp add: offending_keys_def conj_ac)
  then show ?thesis
    using assms by (simp add: check_file_def validate_keys_dict Let_def)
qed

text \<open>
  The example of section 8: with the filter \<^verbatim>\<open>^(data)$\<close>, the document with
  \<^verbatim>\<open>data: {x: "ENC[...]"}\<close> and \<^verbatim>\<open>other: 12345\<close> is valid.
\<close>

theorem key_filter_literal_match_witness:
  "check_file
     (scenario_env
        [(''secrets.yaml'', narrowing_text), (''.sops.yaml'', config_text ''^(data)$'')]
        []
        [(narrowing_text, Inr (VDict narrowing_doc)),
         (config_text ''^(data)$'', Inr (config_doc ''^(data)$''))])
     ''secrets.yaml'' =
   Inr (True, ''secrets.yaml: Valid encryption'')"
  using key_filter_literal_match
    [of "scenario_env
           [(''secrets.yaml'', narrowing_text), (''.sops.yaml'', config_text ''^(data)$'')]
           []
           [(narrowing_text, Inr (VDict narrowing_doc)),
            (config_text ''^(data)$'', Inr (config_doc ''^(data)$''))]"
        "''secrets.yaml''" narrowing_text narrowing_doc "[''data'']"]
  by (simp add: scenario_simps scenario_data config_simps)

text \<open>
  C3 as stated fails. With the filter \<^verbatim>\<open>^(dat.)$\<close> the pattern \<^verbatim>\<open>dat.\<close> matches
  the key \<^verbatim>\<open>data\<close> as a regular expression, and the value \<^verbatim>\<open>12345\<close> under that
  key fails the leaf rule; yet the file is reported valid, because \<^verbatim>\<open>data\<close> is not
  the string \<^verbatim>\<open>dat.\<close> and the key is skipped.
\<close>

theorem key_filter_regex_counterexample:
  "spec_regex_match ''dat.'' ''data''
   \<and> \<not> truthy (validate_enc (VInt 12345))
   \<and> check_file
       (scenario_env
          [(''secrets.yaml'', number_text), (''.sops.yaml'', config_text ''^(dat.)$'')]
          []
          [(number_text, Inr (VDict number_doc)),
           (config_text ''^(dat.)$'', Inr (config_doc ''^(dat.)$''))])
       ''secrets.yaml'' =
     Inr (True, ''secrets.yaml: Valid encryption'')"
  by (simp add: check_file_eval scenario_simps scenario_data config_simps)

text \<open>
  C9, as the code has it. For a configuration of the expected shape whose regular
  expression is \<^verbatim>\<open>^(\<close> + \<open>p\<^sub>1\<close> + \<^verbatim>\<open>|\<close> + ... + \<^verbatim>\<open>|\<close> + \<open>p\<^sub>n\<close> + \<^verbatim>\<open>)$\<close> with
  \<open>n \<ge> 1\<close>, the list \<^verbatim>\<open>encrypted_regex\<close> is exactly \<open>[p\<^sub>1, ..., p\<^sub>n]\<close>
  provided that no pattern contains \<^verbatim>\<open>|\<close>, the first pattern does not begin and the
  last pattern does not end with one of the characters \<^verbatim>\<open>' $ ^ ( )\<close>:
  \<^verbatim>\<open>.strip("'$^()")\<close> removes every such character from both ends, not the
  wrapper alone.
\<close>

theorem regex_wrapper_stripped:
  assumes "open_file env sops_config = Inr sc"
    and "yaml_load env sc = Inr config"
    and "config_regex config = Some (''^('' @ join ''|'' ps @ '')$'')"
    and "ps \<noteq> []"
    and "\<forall>p \<in> set ps. CHR ''|'' \<notin> set p"
    and "hd ps = [] \<or> hd (hd ps) \<notin> set strip_set"
    and "last ps = [] \<or> last (last ps) \<notin> set strip_set"
  shows "config_block env = Inr ps"
proof -
  let ?body = "join ''|'' ps"
  have bar: "CHR ''|'' \<notin> set strip_set" by (simp add: strip_set_def)
  have "?body = [] \<or> (hd ?body \<notin> set strip_set \<and> last ?body \<notin> set strip_set)"
    using assms(4,6,7) bar hd_join [of ps "CHR ''|''"] last_join [of ps "CHR ''|''"]
    by (cases "?body = []") auto
  then have "str_strip (''^('' @ ?body @ '')$'') strip_set = ?body"
    by (rule str_strip_wrapper)
  moreover have "str_split ?body CHR ''|'' = ps"
    using assms(4,5) by (rule str_split_join)
  ultimately have "encrypted_regex_of config = Inr ps"
    using encrypted_regex_of_shape [of config] assms(3) by simp
  then show ?thesis
    using assms(1,2) by (simp add: config_block_def)
qed

text \<open>The usual configuration of the encryption tool: \<^verbatim>\<open>^(data|stringData)$\<close>.\<close>

theorem regex_wrapper_stripped_witness:
  "config_block
     (scenario_env [(''.sops.yaml'', config_text ''^(data|stringData)$'')] []
        [(config_text ''^(data|stringData)$'', Inr (config_doc ''^(data|stringData)$''))])
   = Inr [''data'', ''stringData'']"
  using regex_wrapper_stripped
    [of "scenario_env [(''.sops.yaml'', config_text ''^(data|stringData)$'')] []
           [(config_text ''^(data|stringData)$'', Inr (config_doc ''^(data|stringData)$''))]"
        "config_text ''^(data|stringData)$''" "config_doc ''^(data|stringData)$''"
        "[''data'', ''stringData'']"]
  by (simp add: scenario_env_def sops_config_def config_text_def config_doc_def
      config_regex_def strip_set_def)

text \<open>
  C9 as stated fails: for the patterns \<^verbatim>\<open>(a)\<close> and \<^verbatim>\<open>b\<close> the regular expression
  is \<^verbatim>\<open>^((a)|b)$\<close>, and the list that results is \<^verbatim>\<open>a)\<close>, \<^verbatim>\<open>b\<close>: the opening
  parenthesis of the first pattern is stripped with the wrapper.
\<close>

theorem regex_wrapper_counterexample:
  "config_block
     (scenario_env [(''.sops.yaml'', config_text (''^('' @ join ''|'' [''(a)'', ''b''] @ '')$''))] []
        [(config_text (''^('' @ join ''|'' [''(a)'', ''b''] @ '')$''),
          Inr (config_doc (''^('' @ join ''|'' [''(a)'', ''b''] @ '')$'')))])
   = Inr [''a)'', ''b'']
   \<and> [''a)'', ''b''] \<noteq> [''(a)'', ''b'']"
  by (simp add: scenario_env_def sops_config_def config_simps)

section \<open>Failures of loading\<close>




text \<open>
  C2, what the code does. The handler around the loader catches \<^verbatim>\<open>ParserError\<close>
  only. For a path that does not end in \<^verbatim>\<open>.yaml\<close> the loader is \<^verbatim>\<open>json.load\<close>,
  whose error for a malformed text is \<^verbatim>\<open>json.JSONDecodeError\<close>: any exception
  other than \<^verbatim>\<open>ParserError\<close> leaves \<^verbatim>\<open>check_file\<close>, and no verdict with the
  message \<^verbatim>\<open>Not valid JSON or YAML\<close> is returned.
\<close>

theorem invalid_json_raises:
  assumes "\<not> endswith filename ''.yaml''"
    and "open_file env filename = Inr f"
    and "json_load env f = Inl e"
    and "e \<noteq> ParserError"
  shows "check_file env filename = Inl e"
  using assms by (simp add: check_file_def loader_func_def)

text \<open>Scenario D: the text \<^verbatim>\<open>{not valid}\<close> in a JSON file.\<close>

theorem invalid_json_raises_witness:
  "check_file
     (scenario_env [(''secrets.json'', scenario_d_text)]
        [(scenario_d_text, Inl JSONDecodeError)] [])
     ''secrets.json'' =
   Inl JSONDecodeError"
  using invalid_json_raises
    [of "''secrets.json''"
        "scenario_env [(''secrets.json'', scenario_d_text)]
           [(scenario_d_text, Inl JSONDecodeError)] []"
        scenario_d_text JSONDecodeError]
  by (simp add: scenario_simps scenario_data)

section \<open>Properties of \<^verbatim>\<open>main\<close>\<close>

text \<open>
  C4, as the code has it. For a non-empty list of filenames on each of which
  \<^verbatim>\<open>check_file\<close> returns a verdict, \<^verbatim>\<open>main\<close> goes through every file, prints the
  message of each failing file followed by a newline, in the order of the list (nothing
  when all are valid), and returns 0 when every file is valid and 1 otherwise. An
  exception that \<^verbatim>\<open>check_file\<close> raises on a file leaves \<^verbatim>\<open>main\<close> at that file:
  the files after it are not checked and nothing is printed. A file that cannot be
  opened is such a file.
\<close>

theorem main_processes_files:
  "(filenames \<noteq> [] \<and> (\<forall>f \<in> set filenames. check_file env f = Inr (verdict f)) \<longrightarrow>
      main env filenames =
        Returns (if \<forall>f \<in> set filenames. fst (verdict f) then 0 else 1)
          (concat (map (\<lambda>f. snd (verdict f) @ [CHR 0x0A])
             (filter (\<lambda>f. \<not> fst (verdict f)) filenames))))
   \<and> ((\<forall>g \<in> set pre. check_file env g = Inr (verdict g)) \<and> check_file env f = Inl e \<longrightarrow>
      main env (pre @ f # post) = Raises e)
   \<and> (open_file env f = Inl e \<longrightarrow> check_file env f = Inl e)"
proof (intro conjI impI)
  assume a: "filenames \<noteq> [] \<and> (\<forall>f \<in> set filenames. check_file env f = Inr (verdict f))"
  let ?failed = "map (\<lambda>f. snd (verdict f)) (filter (\<lambda>f. \<not> fst (verdict f)) filenames)"
  from a have loop: "files_loop env filenames [] = Inr ?failed"
    using files_loop_verdicts [of filenames env verdict "[]"] by simp
  have empty: "(?failed = []) = (\<forall>f \<in> set filenames. fst (verdict f))"
    by (simp add: filter_empty_conv)
  have lines: "?failed \<noteq> [] \<Longrightarrow> print (join [CHR 0x0A] ?failed) =
      concat (map (\<lambda>f. snd (verdict f) @ [CHR 0x0A]) (filter (\<lambda>f. \<not> fst (verdict f)) filenames))"
    using join_lines [of ?failed "CHR 0x0A"] by (simp add: comp_def print_def)
  show "main env filenames =
        Returns (if \<forall>f \<in> set filenames. fst (verdict f) then 0 else 1)
          (concat (map (\<lambda>f. snd (verdict f) @ [CHR 0x0A])
             (filter (\<lambda>f. \<not> fst (verdict f)) filenames)))"
  proof (cases "?failed = []")
    case True
    with a loop empty show ?thesis by (simp add: main_def)
  next
    case False
    with a loop empty lines show ?thesis by (simp add: main_def)
  qed
next
  assume "(\<forall>g \<in> set pre. check_file env g = Inr (verdict g)) \<and> check_file env f = Inl e"
  then have "files_loop env (pre @ f # post) [] = Inl e"
    using files_loop_raises by blast
  then show "main env (pre @ f # post) = Raises e"
    by (simp add: main_def)
next
  assume "open_file env f = Inl e"
  then show "check_file env f = Inl e" by (simp add: check_file_def)
qed

text \<open>
  Two files, the valid one of scenario A and the failing one of scenario B: one line
  is printed and the result is 1. With a missing file between them, \<^verbatim>\<open>main\<close> ends
  with the exception of \<^verbatim>\<open>open\<close>.
\<close>

theorem main_processes_files_witness:
  "main
     (scenario_env [(''good.json'', scenario_a_text), (''bad.json'', scenario_b_text)]
        [(scenario_a_text, Inr (VDict scenario_a_doc)),
         (scenario_b_text, Inr (VDict scenario_b_doc))] [])
     [''good.json'', ''bad.json''] =
   Returns 1
     (''bad.json: sops metadata key not found in file, is not properly encrypted''
        @ [CHR 0x0A])
   \<and> main
     (scenario_env [(''good.json'', scenario_a_text), (''bad.json'', scenario_b_text)]
        [(scenario_a_text, Inr (VDict scenario_a_doc)),
         (scenario_b_text, Inr (VDict scenario_b_doc))] [])
     [''good.json'', ''missing.json'', ''bad.json''] =
   Raises OSError"
  using main_processes_files
    [where env = "scenario_env [(''good.json'', scenario_a_text), (''bad.json'', scenario_b_text)]
        [(scenario_a_text, Inr (VDict scenario_a_doc)),
         (scenario_b_text, Inr (VDict scenario_b_doc))] []"
      and filenames = "[''good.json'', ''bad.json'']"
      and verdict = "\<lambda>f. if f = ''good.json'' then (True, ''good.json: Valid encryption'')
          else (False,
            ''bad.json: sops metadata key not found in file, is not properly encrypted'')"
      and pre = "[''good.json'']" and f = "''missing.json''" and e = OSError
      and post = "[''bad.json'']"]
  by (simp add: check_file_eval scenario_simps scenario_data config_block_def)

text \<open>
  C4 as stated fails. Of two failing files, the first missing and the second without
  the metadata key, neither gets a line on standard output and the second is never
  checked: the exception of \<^verbatim>\<open>open\<close> ends \<^verbatim>\<open>main\<close>.
\<close>

theorem main_missing_file_counterexample:
  "main
     (scenario_env [(''bad.json'', scenario_b_text)]
        [(scenario_b_text, Inr (VDict scenario_b_doc))] [])
     [''missing.json'', ''bad.json''] =
   Raises OSError"
  by (simp add: main_def check_file_eval scenario_simps scenario_data)

section \<open>Documents that are not mappings\<close>




end
